theory Spec2Isabelle
  imports Complex_Main "HOL-Library.Product_Lexorder" "HOL-Library.Sublist"
begin

section \<open>Task orchestration of the trading bot: a shallow embedding\<close>

text \<open>
  The theory embeds the orchestration code of \<^verbatim>\<open>main.py\<close> (the session clock, the news
  watcher, the pipeline actions, the job table of \<^verbatim>\<open>main\<close>) and the market check of
  \<^verbatim>\<open>enhanced_main.py\<close>. Everything the Python does beyond returning a value is explicit:
  an action takes the world (files, alerts sent, log lines written, asyncio tasks
  created) and returns the outcome together with the new world; a raised exception is the
  outcome \<open>Inl e\<close>. The collaborators under \<^verbatim>\<open>modules/\<close> and the third-party libraries are
  not part of the code at hand: what they return is read from an environment record, one
  field per collaborator, and every theorem holds for every environment.
\<close>

subsection \<open>Exceptions, JSON values, files\<close>

datatype exn =
    NameError string
  | KeyError string
  | TypeError
  | AttributeError
  | JSONDecodeError
  | ExternalError string

datatype json =
    JNull
  | JBool bool
  | JNum int
  | JStr string
  | JArr "json list"
  | JObj "(string \<times> json) list"

text \<open>
  A snapshot record is \<^verbatim>\<open>{"symbol": ..., ...attributes}\<close>. A snapshot file holds a JSON
  array of such records; \<open>Unreadable\<close> stands for any other content, on which
  \<^verbatim>\<open>json.load\<close> or the comprehension \<^verbatim>\<open>[s["symbol"] for s in old_list]\<close> raises.
\<close>

record stock =
  symbol :: string
  attrs :: "(string \<times> json) list"

datatype file_content = Snapshot "stock list" | Unreadable exn

type_synonym fs = "string \<rightharpoonup> file_content"

subsection \<open>The session clock\<close>

text \<open>
  What \<^verbatim>\<open>datetime.now(tz)\<close> gives: \<^verbatim>\<open>weekday()\<close> is 0 for Monday up to 6 for Sunday.
\<close>

record local_time =
  weekday :: nat
  hour :: nat
  minute :: nat
  second :: nat

text \<open>
  \<^verbatim>\<open>is_market_open\<close> of \<^verbatim>\<open>main.py\<close>. The argument is the outcome of its first two lines
  (\<^verbatim>\<open>pytz.timezone("America/New_York")\<close>, \<^verbatim>\<open>datetime.now(ny_tz)\<close>): the New York local time,
  or the exception raised while resolving it. The function has no handler, so the
  exception leaves it. The two comparisons are Python's tuple comparisons, which are
  lexicographic, as is the order on pairs here.
\<close>

definition is_market_open :: "exn + local_time \<Rightarrow> exn + bool" where
  "is_market_open clock =
     (case clock of
        Inl e \<Rightarrow> Inl e
      | Inr ny_time \<Rightarrow>
          if weekday ny_time \<ge> 5 then Inr False
          else
            let market_open = (9::nat, 30::nat);
                market_close = (16::nat, 0::nat);
                current_time = (hour ny_time, minute ny_time)
            in Inr (market_open \<le> current_time \<and> current_time < market_close))"

text \<open>
  \<^verbatim>\<open>check_market_open\<close> of \<^verbatim>\<open>enhanced_main.py\<close>. It reads \<^verbatim>\<open>datetime.now()\<close>, the clock of
  the host in the host's own timezone, compares the hour only, and has a handler that logs
  the exception and answers \<^verbatim>\<open>True\<close>. The log lines of that program are the second
  component.
\<close>

datatype enhanced_log = MarketCheckError exn

definition check_market_open ::
  "exn + local_time \<Rightarrow> enhanced_log list \<Rightarrow> (exn + bool) \<times> enhanced_log list" where
  "check_market_open host_now lg =
     (case host_now of
        Inl e \<Rightarrow> (Inr True, lg @ [MarketCheckError e])
      | Inr now \<Rightarrow>
          if weekday now \<ge> 5 then (Inr False, lg)
          else if 9 \<le> hour now \<and> hour now \<le> 16 then (Inr True, lg)
          else (Inr False, lg))"

text \<open>Seconds since local midnight, to state the trading window.\<close>

definition time_of_day :: "local_time \<Rightarrow> nat" where
  "time_of_day t = hour t * 3600 + minute t * 60 + second t"

definition mk_time :: "nat \<Rightarrow> nat \<Rightarrow> nat \<Rightarrow> nat \<Rightarrow> local_time" where
  "mk_time wd h m s = \<lparr>weekday = wd, hour = h, minute = m, second = s\<rparr>"

subsection \<open>The world an action runs in\<close>

text \<open>
  A Telegram alert, a line written by \<^verbatim>\<open>log\<close> (one constructor per call site of
  \<^verbatim>\<open>main.py\<close>; the texts themselves are not ASCII), and the coroutines and functions that
  \<^verbatim>\<open>main\<close> hands to the scheduler or to \<^verbatim>\<open>asyncio.create_task\<close>.
\<close>

datatype message = NewPositiveStock string | CollaboratorAlert string

datatype log_msg =
    CheckingPositiveNews
  | NewsAnalysisError string exn
  | PositiveSaved nat
  | NoPositiveStocks
  | PositiveWatchFailed exn
  | MarketClosedUpdateCancelled
  | AnalyzingMarket
  | MarketAnalyzed
  | MarketAnalysisFailed exn
  | UpdatingSymbols
  | SymbolsUpdated nat
  | SymbolsUpdateFailed exn
  | AnalyzingPumps
  | PumpsUpdated
  | PumpsFailed exn
  | AnalyzingHighMovement
  | HighMovementUpdated
  | HighMovementFailed exn
  | TrackingTargets
  | TrackTargetsFailed exn
  | MarketOpenReportPostponed
  | DailyTrainingStarted
  | DailyTrainingDone
  | DailyTrainingFailed exn
  | SpyAnalysisError exn

datatype action =
    ScheduledTasks
  | DailyModelTraining
  | UpdateSymbols
  | UpdateMarketData
  | UpdatePumpStocks
  | UpdateHighMovementStocks
  | TrackTargets
  | WatchPositiveNewsStocks
  | SendDailyReportTask
  | CleanTradeHistoryTask
  | SendPnlSummary
  | CloseAllPositionsBeforeMarketClose
  | VerifyActiveStopOrders

record world =
  files :: fs
  sent :: "message list"
  logged :: "log_msg list"
  tasks :: "action list"

type_synonym 'a io = "world \<Rightarrow> (exn + 'a) \<times> world"

text \<open>
  A collaborator of \<^verbatim>\<open>modules/\<close> is a black box: given the files it answers whether it
  raised, the files it leaves and the alerts it sent.
\<close>

type_synonym collaborator = "fs \<Rightarrow> exn option \<times> fs \<times> message list"

datatype http_result = RequestRaises exn | Response int "json option"

record env =
  ny_now :: "exn + local_time"
  spy_closes :: "exn + real list"
  news :: "string \<Rightarrow> http_result"
  str_lower :: "string \<Rightarrow> string"
  fetch_stocks_from_tradingview :: "exn + stock list"
  send_telegram_message :: "message \<Rightarrow> exn option"
  analyze_market :: collaborator
  compare_stock_lists_and_alert :: "string \<Rightarrow> string \<Rightarrow> collaborator"
  check_cross_list_movements :: collaborator
  fetch_all_us_symbols :: "exn + string list"
  save_symbols_to_csv :: "string list \<Rightarrow> collaborator"
  detect_pump_stocks :: collaborator
  analyze_high_movement_stocks :: collaborator
  check_targets :: collaborator
  generate_report_summary :: collaborator
  clean_old_trades :: collaborator
  train_model_daily :: collaborator
  send_pnl_summary :: collaborator
  close_all_positions_before_market_close :: collaborator
  scheduled_tasks :: collaborator

definition log_line :: "log_msg \<Rightarrow> world \<Rightarrow> world" where
  "log_line m w = w\<lparr>logged := logged w @ [m]\<rparr>"

definition log_info :: "log_msg \<Rightarrow> unit io" where
  "log_info m w = (Inr (), log_line m w)"

definition call :: "collaborator \<Rightarrow> unit io" where
  "call f w =
     (case f (files w) of
        (r, fs', ms) \<Rightarrow>
          (case r of None \<Rightarrow> Inr () | Some e \<Rightarrow> Inl e,
           w\<lparr>files := fs', sent := sent w @ ms\<rparr>))"

text \<open>Statements one after the other: the first exception ends the sequence.\<close>

fun seq :: "unit io list \<Rightarrow> unit io" where
  "seq [] w = (Inr (), w)"
| "seq (step # steps) w =
     (case step w of
        (Inl e, w') \<Rightarrow> (Inl e, w')
      | (Inr _, w') \<Rightarrow> seq steps w')"

text \<open>\<^verbatim>\<open>try: body  except Exception as e: handler(e)\<close>\<close>

definition try_except :: "'a io \<Rightarrow> (exn \<Rightarrow> 'a io) \<Rightarrow> 'a io" where
  "try_except body handler w =
     (case body w of
        (Inl e, w') \<Rightarrow> handler e w'
      | (Inr x, w') \<Rightarrow> (Inr x, w'))"

text \<open>
  \<^verbatim>\<open>if os.path.exists(a): shutil.copy(a, b)\<close>, the backup idiom of the three refresh
  actions. The file operations of \<^verbatim>\<open>main.py\<close> itself are taken to succeed.
\<close>

definition copy_if_exists :: "string \<Rightarrow> string \<Rightarrow> unit io" where
  "copy_if_exists a b w =
     (case files w a of
        None \<Rightarrow> (Inr (), w)
      | Some c \<Rightarrow> (Inr (), w\<lparr>files := (files w)(b \<mapsto> c)\<rparr>))"

subsection \<open>Market weakness\<close>

text \<open>
  \<^verbatim>\<open>is_market_weak\<close>. \<open>spy_closes\<close> is the column \<^verbatim>\<open>hist["Close"]\<close> of
  \<^verbatim>\<open>yf.Ticker("SPY").history(period="2d")\<close>, or the exception the fetch raised. The prices
  are floats in the code and exact reals here. \<^verbatim>\<open>log_action\<close> of \<^verbatim>\<open>modules.auto_trader\<close> is
  taken to write its line like \<^verbatim>\<open>log\<close> (here \<open>log_info\<close>).
\<close>

definition is_market_weak :: "env \<Rightarrow> bool io" where
  "is_market_weak env w =
     (case spy_closes env of
        Inl e \<Rightarrow> (Inr False, log_line (SpyAnalysisError e) w)
      | Inr hist \<Rightarrow>
          if length hist \<ge> 2 then
            let prev_close = hist ! (length hist - 2);
                today_close = hist ! (length hist - 1);
                change_pct = (today_close - prev_close) / prev_close * 100
            in (Inr (change_pct < - 1), w)
          else (Inr False, w))"

subsection \<open>News sentiment\<close>

text \<open>
  Python's \<^verbatim>\<open>x.get(key, default)\<close>, iteration and \<^verbatim>\<open>x.lower()\<close> on a parsed JSON value.
  Only a dict has \<^verbatim>\<open>get\<close> and only a string has \<^verbatim>\<open>lower\<close> (\<^verbatim>\<open>AttributeError\<close> otherwise);
  a list, a dict (its keys) and a string (its characters) can be iterated, the rest raise
  \<^verbatim>\<open>TypeError\<close>. A parsed object lists each key once.

  A string is its UTF-8 bytes. \<^verbatim>\<open>str.lower\<close> is Python's own and follows the Unicode tables
  (it lowers U+212A KELVIN SIGN to \<^verbatim>\<open>k\<close>, for one), so it is not written out here: it is
  the field \<open>str_lower\<close> of the environment, and the functions below take it as an
  argument. The keywords looked for are ASCII, and an ASCII string occurs in a text exactly
  when its bytes occur in the UTF-8 bytes of the text, so \<open>sublist\<close> on the bytes is
  Python's \<^verbatim>\<open>in\<close>.
\<close>

fun py_get :: "json \<Rightarrow> string \<Rightarrow> json \<Rightarrow> exn + json" where
  "py_get (JObj kvs) k d = Inr (case map_of kvs k of Some v \<Rightarrow> v | None \<Rightarrow> d)"
| "py_get _ k d = Inl AttributeError"

fun py_iter :: "json \<Rightarrow> exn + json list" where
  "py_iter (JArr xs) = Inr xs"
| "py_iter (JObj kvs) = Inr (map (\<lambda>kv. JStr (fst kv)) kvs)"
| "py_iter (JStr s) = Inr (map (\<lambda>c. JStr [c]) s)"
| "py_iter _ = Inl TypeError"

fun py_lower :: "(string \<Rightarrow> string) \<Rightarrow> json \<Rightarrow> exn + string" where
  "py_lower lower (JStr s) = Inr (lower s)"
| "py_lower lower _ = Inl AttributeError"

text \<open>The \<^verbatim>\<open>for article in articles\<close> loop.\<close>

fun scan_articles :: "(string \<Rightarrow> string) \<Rightarrow> json list \<Rightarrow> exn + string" where
  "scan_articles lower [] = Inr ''neutral''"
| "scan_articles lower (article # articles) =
     (case py_get article ''title'' (JStr []) of
        Inl e \<Rightarrow> Inl e
      | Inr t \<Rightarrow>
          (case py_lower lower t of
             Inl e \<Rightarrow> Inl e
           | Inr title \<Rightarrow>
               if sublist ''bankruptcy'' title \<or> sublist ''dilution'' title
               then Inr ''negative''
               else if sublist ''record revenue'' title \<or> sublist ''strong earnings'' title
               then Inr ''positive''
               else scan_articles lower articles))"

text \<open>
  The body of the \<^verbatim>\<open>try\<close> of \<^verbatim>\<open>fetch_news_sentiment\<close>, on the outcome of
  \<^verbatim>\<open>requests.get(url)\<close>: the status code and the body parsed by \<^verbatim>\<open>response.json()\<close>
  (\<open>None\<close> when the body is not JSON and the parse raises).
\<close>

definition fetch_news_try :: "(string \<Rightarrow> string) \<Rightarrow> http_result \<Rightarrow> exn + string" where
  "fetch_news_try lower r =
     (case r of
        RequestRaises e \<Rightarrow> Inl e
      | Response status_code body \<Rightarrow>
          if status_code = 200 then
            (case body of
               None \<Rightarrow> Inl JSONDecodeError
             | Some j \<Rightarrow>
                 (case py_get j ''data'' (JArr []) of
                    Inl e \<Rightarrow> Inl e
                  | Inr articles \<Rightarrow>
                      (case py_iter articles of
                         Inl e \<Rightarrow> Inl e
                       | Inr as \<Rightarrow> scan_articles lower as)))
          else Inr ''neutral'')"

definition fetch_news_sentiment :: "env \<Rightarrow> string \<Rightarrow> string io" where
  "fetch_news_sentiment env sy w =
     (case fetch_news_try (str_lower env) (news env sy) of
        Inr s \<Rightarrow> (Inr s, w)
      | Inl e \<Rightarrow> (Inr ''neutral'', log_line (NewsAnalysisError sy e) w))"

subsection \<open>The positive-news watcher\<close>

definition POSITIVE_NEWS_FILE :: string where
  "POSITIVE_NEWS_FILE = ''data/positive_watchlist.json''"

text \<open>
  \<^verbatim>\<open>old_symbols = []\<close>, replaced by the symbols of the stored list when the file exists.
\<close>

definition load_old_symbols :: "fs \<Rightarrow> exn + string list" where
  "load_old_symbols fls =
     (case fls POSITIVE_NEWS_FILE of
        None \<Rightarrow> Inr []
      | Some (Snapshot old_list) \<Rightarrow> Inr (map symbol old_list)
      | Some (Unreadable e) \<Rightarrow> Inl e)"

definition telegram :: "env \<Rightarrow> message \<Rightarrow> unit io" where
  "telegram env m w =
     (case send_telegram_message env m of
        None \<Rightarrow> (Inr (), w\<lparr>sent := sent w @ [m]\<rparr>)
      | Some e \<Rightarrow> (Inl e, w))"

text \<open>The \<^verbatim>\<open>for stock in stocks\<close> loop, with \<^verbatim>\<open>positive_stocks\<close> as the accumulator.\<close>

fun scan_stocks :: "env \<Rightarrow> string list \<Rightarrow> stock list \<Rightarrow> stock list \<Rightarrow> (stock list) io" where
  "scan_stocks env old_symbols [] positive_stocks w = (Inr positive_stocks, w)"
| "scan_stocks env old_symbols (stock # stocks) positive_stocks w =
     (case fetch_news_sentiment env (symbol stock) w of
        (Inl e, w1) \<Rightarrow> (Inl e, w1)
      | (Inr sentiment, w1) \<Rightarrow>
          if sentiment = ''positive'' \<and> symbol stock \<notin> set old_symbols then
            (case telegram env (NewPositiveStock (symbol stock)) w1 of
               (Inl e, w2) \<Rightarrow> (Inl e, w2)
             | (Inr _, w2) \<Rightarrow>
                 scan_stocks env old_symbols stocks (positive_stocks @ [stock]) w2)
          else scan_stocks env old_symbols stocks positive_stocks w1)"

definition watch_positive_news_try :: "env \<Rightarrow> unit io" where
  "watch_positive_news_try env w =
     (case fetch_stocks_from_tradingview env of
        Inl e \<Rightarrow> (Inl e, w)
      | Inr stocks \<Rightarrow>
          (case load_old_symbols (files w) of
             Inl e \<Rightarrow> (Inl e, w)
           | Inr old_symbols \<Rightarrow>
               (case scan_stocks env old_symbols stocks [] w of
                  (Inl e, w1) \<Rightarrow> (Inl e, w1)
                | (Inr positive_stocks, w1) \<Rightarrow>
                    if positive_stocks \<noteq> [] then
                      log_info (PositiveSaved (length positive_stocks))
                        (w1\<lparr>files := (files w1)(POSITIVE_NEWS_FILE \<mapsto> Snapshot positive_stocks)\<rparr>)
                    else log_info NoPositiveStocks w1)))"

definition watch_positive_news_stocks :: "env \<Rightarrow> unit io" where
  "watch_positive_news_stocks env w =
     try_except (watch_positive_news_try env)
       (\<lambda>e. log_info (PositiveWatchFailed e))
       (log_line CheckingPositiveNews w)"

text \<open>
  The value \<^verbatim>\<open>fetch_news_sentiment\<close> returns for a symbol, and the stocks of a fetched list
  that the watcher keeps: positive sentiment, symbol not in the stored list.
\<close>

definition sentiment_of :: "env \<Rightarrow> string \<Rightarrow> string" where
  "sentiment_of env sy =
     (case fetch_news_try (str_lower env) (news env sy) of Inr s \<Rightarrow> s | Inl e \<Rightarrow> ''neutral'')"

definition newly_positive :: "env \<Rightarrow> string list \<Rightarrow> stock list \<Rightarrow> stock list" where
  "newly_positive env old_symbols stocks =
     filter (\<lambda>stock. sentiment_of env (symbol stock) = ''positive''
                      \<and> symbol stock \<notin> set old_symbols) stocks"

text \<open>
  The list the watchlist file held before the run (empty when there is no file), and
  whether the file is there but cannot be read as a list of records.
\<close>

definition previously_stored :: "fs \<Rightarrow> stock list" where
  "previously_stored fls =
     (case fls POSITIVE_NEWS_FILE of Some (Snapshot old_list) \<Rightarrow> old_list | _ \<Rightarrow> [])"

definition stored_unreadable :: "fs \<Rightarrow> bool" where
  "stored_unreadable fls =
     (case fls POSITIVE_NEWS_FILE of Some (Unreadable e) \<Rightarrow> True | _ \<Rightarrow> False)"

subsection \<open>The pipeline actions\<close>

definition update_market_data :: "env \<Rightarrow> unit io" where
  "update_market_data env w =
     (case is_market_open (ny_now env) of
        Inl e \<Rightarrow> (Inl e, w)
      | Inr is_open \<Rightarrow>
          if \<not> is_open then log_info MarketClosedUpdateCancelled w
          else
            try_except
              (seq [copy_if_exists ''data/top_stocks.json'' ''data/top_stocks_old.json'',
                    copy_if_exists ''data/pump_stocks.json'' ''data/pump_stocks_old.json'',
                    copy_if_exists ''data/high_movement_stocks.json''
                      ''data/high_movement_stocks_old.json'',
                    call (analyze_market env),
                    log_info MarketAnalyzed,
                    call (compare_stock_lists_and_alert env
                      ''data/top_stocks_old.json'' ''data/top_stocks.json''),
                    call (check_cross_list_movements env)])
              (\<lambda>e. log_info (MarketAnalysisFailed e))
              (log_line AnalyzingMarket w))"

definition update_symbols :: "env \<Rightarrow> unit io" where
  "update_symbols env w =
     try_except
       (\<lambda>w1. case fetch_all_us_symbols env of
                Inl e \<Rightarrow> (Inl e, w1)
              | Inr symbols \<Rightarrow>
                  if symbols \<noteq> [] then
                    seq [call (save_symbols_to_csv env symbols),
                         log_info (SymbolsUpdated (length symbols))] w1
                  else (Inr (), w1))
       (\<lambda>e. log_info (SymbolsUpdateFailed e))
       (log_line UpdatingSymbols w)"

definition update_pump_stocks :: "env \<Rightarrow> unit io" where
  "update_pump_stocks env w =
     (case is_market_open (ny_now env) of
        Inl e \<Rightarrow> (Inl e, w)
      | Inr is_open \<Rightarrow>
          if \<not> is_open then (Inr (), w)
          else
            try_except
              (seq [copy_if_exists ''data/pump_stocks.json'' ''data/pump_stocks_old.json'',
                    call (detect_pump_stocks env),
                    log_info PumpsUpdated,
                    call (compare_stock_lists_and_alert env
                      ''data/pump_stocks_old.json'' ''data/pump_stocks.json'')])
              (\<lambda>e. log_info (PumpsFailed e))
              (log_line AnalyzingPumps w))"

definition update_high_movement_stocks :: "env \<Rightarrow> unit io" where
  "update_high_movement_stocks env w =
     (case is_market_open (ny_now env) of
        Inl e \<Rightarrow> (Inl e, w)
      | Inr is_open \<Rightarrow>
          if \<not> is_open then (Inr (), w)
          else
            try_except
              (seq [copy_if_exists ''data/high_movement_stocks.json''
                      ''data/high_movement_stocks_old.json'',
                    call (analyze_high_movement_stocks env),
                    log_info HighMovementUpdated,
                    call (compare_stock_lists_and_alert env
                      ''data/high_movement_stocks_old.json'' ''data/high_movement_stocks.json'')])
              (\<lambda>e. log_info (HighMovementFailed e))
              (log_line AnalyzingHighMovement w))"

definition track_targets :: "env \<Rightarrow> unit io" where
  "track_targets env w =
     try_except (call (check_targets env))
       (\<lambda>e. log_info (TrackTargetsFailed e))
       (log_line TrackingTargets w)"

text \<open>The next two have no \<^verbatim>\<open>try\<close>: what the collaborator raises leaves the coroutine.\<close>

definition send_daily_report_task :: "env \<Rightarrow> unit io" where
  "send_daily_report_task env w =
     (case is_market_open (ny_now env) of
        Inl e \<Rightarrow> (Inl e, w)
      | Inr is_open \<Rightarrow>
          if is_open then log_info MarketOpenReportPostponed w
          else call (generate_report_summary env) w)"

definition clean_trade_history_task :: "env \<Rightarrow> unit io" where
  "clean_trade_history_task env w = call (clean_old_trades env) w"

definition daily_model_training :: "env \<Rightarrow> unit io" where
  "daily_model_training env w =
     try_except
       (seq [call (train_model_daily env), log_info DailyTrainingDone])
       (\<lambda>e. log_info (DailyTrainingFailed e))
       (log_line DailyTrainingStarted w)"

text \<open>
  An invocation that returns normally and leaves the files, the alerts and the created
  tasks as they were.
\<close>

definition returns_without_effect :: "unit io \<Rightarrow> world \<Rightarrow> bool" where
  "returns_without_effect m w =
     (fst (m w) = Inr () \<and> files (snd (m w)) = files w \<and> sent (snd (m w)) = sent w
      \<and> tasks (snd (m w)) = tasks w)"

subsection \<open>Start-up and the job table of \<^verbatim>\<open>main\<close>\<close>

text \<open>
  \<^verbatim>\<open>asyncio.create_task(coro)\<close> only records the coroutine for the event loop to run
  later: nothing of its body runs before the caller next awaits.
\<close>

definition create_task :: "action \<Rightarrow> unit io" where
  "create_task a w = (Inr (), w\<lparr>tasks := tasks w @ [a]\<rparr>)"

text \<open>
  The body behind each name, as \<^verbatim>\<open>main.py\<close> sees it. \<^verbatim>\<open>verify_active_stop_orders\<close> is
  neither defined nor imported in \<^verbatim>\<open>main.py\<close>, so evaluating the name raises.
\<close>

fun run_action :: "env \<Rightarrow> action \<Rightarrow> unit io" where
  "run_action env ScheduledTasks = call (scheduled_tasks env)"
| "run_action env DailyModelTraining = daily_model_training env"
| "run_action env UpdateSymbols = update_symbols env"
| "run_action env UpdateMarketData = update_market_data env"
| "run_action env UpdatePumpStocks = update_pump_stocks env"
| "run_action env UpdateHighMovementStocks = update_high_movement_stocks env"
| "run_action env TrackTargets = track_targets env"
| "run_action env WatchPositiveNewsStocks = watch_positive_news_stocks env"
| "run_action env SendDailyReportTask = send_daily_report_task env"
| "run_action env CleanTradeHistoryTask = clean_trade_history_task env"
| "run_action env SendPnlSummary = call (send_pnl_summary env)"
| "run_action env CloseAllPositionsBeforeMarketClose =
     call (close_all_positions_before_market_close env)"
| "run_action env VerifyActiveStopOrders =
     (\<lambda>w. (Inl (NameError ''verify_active_stop_orders''), w))"

text \<open>
  The part of \<^verbatim>\<open>main\<close> before the registrations: one task created, four actions awaited
  in turn.
\<close>

definition main_startup :: "env \<Rightarrow> unit io" where
  "main_startup env =
     seq [create_task ScheduledTasks,
          daily_model_training env,
          update_market_data env,
          update_pump_stocks env,
          update_high_movement_stocks env]"

text \<open>
  The twelve registrations, in the order of the source. The callable handed to
  \<^verbatim>\<open>do\<close> is \<^verbatim>\<open>lambda: asyncio.create_task(f(...))\<close> for ten of them, the plain function
  \<^verbatim>\<open>watch_positive_news_stocks\<close> for one, and \<^verbatim>\<open>lambda: asyncio.run(f())\<close> for the last;
  \<^verbatim>\<open>asyncio.run\<close> returns once its coroutine has finished.
\<close>

datatype cadence = DailyAt nat nat | EveryMinutes nat

datatype callable = CreateTask action | CallDirectly action | AsyncioRun action

record job =
  job_cadence :: cadence
  job_func :: callable

definition registered_jobs :: "job list" where
  "registered_jobs =
     [\<lparr>job_cadence = DailyAt 0 0, job_func = CreateTask DailyModelTraining\<rparr>,
      \<lparr>job_cadence = DailyAt 3 0, job_func = CreateTask UpdateSymbols\<rparr>,
      \<lparr>job_cadence = EveryMinutes 5, job_func = CreateTask UpdateMarketData\<rparr>,
      \<lparr>job_cadence = EveryMinutes 5, job_func = CreateTask UpdatePumpStocks\<rparr>,
      \<lparr>job_cadence = EveryMinutes 5, job_func = CreateTask UpdateHighMovementStocks\<rparr>,
      \<lparr>job_cadence = EveryMinutes 5, job_func = CreateTask TrackTargets\<rparr>,
      \<lparr>job_cadence = EveryMinutes 10, job_func = CallDirectly WatchPositiveNewsStocks\<rparr>,
      \<lparr>job_cadence = DailyAt 20 0, job_func = CreateTask SendDailyReportTask\<rparr>,
      \<lparr>job_cadence = DailyAt 0 5, job_func = CreateTask CleanTradeHistoryTask\<rparr>,
      \<lparr>job_cadence = EveryMinutes 15, job_func = CreateTask SendPnlSummary\<rparr>,
      \<lparr>job_cadence = DailyAt 15 50, job_func = CreateTask CloseAllPositionsBeforeMarketClose\<rparr>,
      \<lparr>job_cadence = EveryMinutes 1, job_func = AsyncioRun VerifyActiveStopOrders\<rparr>]"

text \<open>What \<^verbatim>\<open>schedule.run_pending\<close> does with a due job: it calls the job's callable.\<close>

fun invoke :: "env \<Rightarrow> callable \<Rightarrow> unit io" where
  "invoke env (CreateTask a) = create_task a"
| "invoke env (CallDirectly a) = run_action env a"
| "invoke env (AsyncioRun a) = run_action env a"

definition action_of :: "callable \<Rightarrow> action" where
  "action_of c = (case c of CreateTask a \<Rightarrow> a | CallDirectly a \<Rightarrow> a | AsyncioRun a \<Rightarrow> a)"

text \<open>
  The process started once per element of the list, each start with the environment it
  meets, on the files and the log the earlier starts left. The log file
  \<^verbatim>\<open>logs/bot.log\<close> is opened for appending, so the lines of earlier starts stay.
\<close>

fun restarts :: "env list \<Rightarrow> world \<Rightarrow> world" where
  "restarts [] w = w"
| "restarts (env # envs) w = restarts envs (snd (main_startup env w))"

definition training_runs :: "world \<Rightarrow> nat" where
  "training_runs w = count_list (logged w) DailyTrainingStarted"

subsection \<open>Backup, then overwrite\<close>

text \<open>
  Modelled from the spec: the second step of \<^verbatim>\<open>backupThenOverwrite(name, newData)\<close>,
  "Write \<^verbatim>\<open>newData\<close> to \<^verbatim>\<open>name\<close>". In the repository the write happens inside the
  refresh collaborators (\<^verbatim>\<open>analyze_market\<close>, \<^verbatim>\<open>detect_pump_stocks\<close>,
  \<^verbatim>\<open>analyze_high_movement_stocks\<close>), whose modules are not among the sources at hand.
\<close>

definition write_snapshot :: "string \<Rightarrow> stock list \<Rightarrow> unit io" where
  "write_snapshot name new_data w = (Inr (), w\<lparr>files := (files w)(name \<mapsto> Snapshot new_data)\<rparr>)"

text \<open>
  The first step is the guarded copy of \<^verbatim>\<open>main.py\<close>; the refresh is the two in
  sequence.
\<close>

definition backup_then_overwrite :: "string \<Rightarrow> string \<Rightarrow> stock list \<Rightarrow> unit io" where
  "backup_then_overwrite name name_old new_data =
     seq [copy_if_exists name name_old, write_snapshot name new_data]"

subsection \<open>Concrete inputs\<close>

definition idle :: collaborator where
  "idle fls = (None, fls, [])"

definition failing :: "string \<Rightarrow> collaborator" where
  "failing what fls = (Some (ExternalError what), fls, [])"

definition empty_world :: world where
  "empty_world = \<lparr>files = Map.empty, sent = [], logged = [], tasks = []\<rparr>"

definition monday_noon :: local_time where
  "monday_noon = mk_time 0 12 0 0"

definition saturday_noon :: local_time where
  "saturday_noon = mk_time 5 12 0 0"

text \<open>
  The concrete environments lower ASCII titles only, where \<^verbatim>\<open>str.lower\<close> changes the
  letters A to Z and nothing else.
\<close>

definition ascii_lower_char :: "char \<Rightarrow> char" where
  "ascii_lower_char c =
     (case map_of (zip ''ABCDEFGHIJKLMNOPQRSTUVWXYZ'' ''abcdefghijklmnopqrstuvwxyz'') c of
        Some l \<Rightarrow> l
      | None \<Rightarrow> c)"

definition ascii_lower :: "string \<Rightarrow> string" where
  "ascii_lower s = map ascii_lower_char s"

definition quiet_env :: env where
  "quiet_env =
     \<lparr>ny_now = Inr saturday_noon,
      spy_closes = Inr [100, 98],
      news = (\<lambda>s. Response 404 None),
      str_lower = ascii_lower,
      fetch_stocks_from_tradingview = Inr [],
      send_telegram_message = (\<lambda>m. None),
      analyze_market = idle,
      compare_stock_lists_and_alert = (\<lambda>old new. idle),
      check_cross_list_movements = idle,
      fetch_all_us_symbols = Inr [],
      save_symbols_to_csv = (\<lambda>symbols. idle),
      detect_pump_stocks = idle,
      analyze_high_movement_stocks = idle,
      check_targets = idle,
      generate_report_summary = idle,
      clean_old_trades = idle,
      train_model_daily = idle,
      send_pnl_summary = idle,
      close_all_positions_before_market_close = idle,
      scheduled_tasks = idle\<rparr>"

definition stock_of :: "string \<Rightarrow> stock" where
  "stock_of s = \<lparr>symbol = s, attrs = []\<rparr>"

definition headline :: "string \<Rightarrow> http_result" where
  "headline title = Response 200 (Some (JObj [(''data'', JArr [JObj [(''title'', JStr title)]])]))"

definition acme_env :: env where
  "acme_env = quiet_env
     \<lparr>news := (\<lambda>s. if s = ''ACME'' then headline ''ACME posts Record Revenue''
                    else Response 404 None),
      fetch_stocks_from_tradingview := Inr [stock_of ''ACME'', stock_of ''ZZZ'']\<rparr>"

definition offline_env :: env where
  "offline_env = quiet_env\<lparr>news := (\<lambda>s. RequestRaises (ExternalError ''ConnectionError''))\<rparr>"

definition garbled_env :: env where
  "garbled_env = quiet_env\<lparr>news := (\<lambda>s. Response 200 None)\<rparr>"

definition stored_world :: world where
  "stored_world =
     empty_world\<lparr>files := [POSITIVE_NEWS_FILE \<mapsto> Snapshot [stock_of ''OLD'']]\<rparr>"

definition stored_acme_world :: world where
  "stored_acme_world =
     empty_world\<lparr>files :=
       [POSITIVE_NEWS_FILE \<mapsto> Snapshot [stock_of ''ACME'', stock_of ''OLD'']]\<rparr>"

definition unreadable_world :: world where
  "unreadable_world =
     empty_world\<lparr>files := [POSITIVE_NEWS_FILE \<mapsto> Unreadable JSONDecodeError]\<rparr>"

definition open_env :: env where
  "open_env = quiet_env\<lparr>ny_now := Inr monday_noon\<rparr>"

definition report_fails_env :: env where
  "report_fails_env = quiet_env\<lparr>generate_report_summary := failing ''report''\<rparr>"

definition history_fails_env :: env where
  "history_fails_env = quiet_env\<lparr>clean_old_trades := failing ''history''\<rparr>"

definition stale_world :: world where
  "stale_world =
     empty_world\<lparr>files := [''data/pump_stocks_old.json'' \<mapsto> Snapshot [stock_of ''AAA'']]\<rparr>"

definition pump_world :: world where
  "pump_world =
     empty_world\<lparr>files := [''data/pump_stocks.json'' \<mapsto> Snapshot [stock_of ''AAA'']]\<rparr>"

definition pump_writer_env :: env where
  "pump_writer_env = open_env
     \<lparr>detect_pump_stocks :=
        (\<lambda>fls. (None, fls(''data/pump_stocks.json'' \<mapsto> Snapshot [stock_of ''BBB'']), []))\<rparr>"

section \<open>The session clock\<close>

lemma is_market_open_window:
  assumes "minute t < 60" "second t < 60"
  shows "is_market_open (Inr t) =
           Inr (weekday t < 5 \<and> 9 * 3600 + 30 * 60 \<le> time_of_day t \<and> time_of_day t < 16 * 3600)"
  using assms by (auto simp: is_market_open_def time_of_day_def Let_def)

text \<open>
  C3 (as amended). On every New York local time, \<^verbatim>\<open>is_market_open\<close> of \<^verbatim>\<open>main.py\<close> answers
  true exactly when the weekday is Monday to Friday and the time of day lies in
  [09:30, 16:00); it answers false at 16:00:00 and at 09:29:59 whatever the weekday.
  \<^verbatim>\<open>check_market_open\<close> of \<^verbatim>\<open>enhanced_main.py\<close> is an hour-granular check on the host's
  clock: false at the weekend and when the hour is below 9 or above 16, true on a weekday
  from 09:00 up to 16:00 (so also at 09:29:59).
\<close>

theorem market_open_checks:
  "(minute t < 60 \<and> second t < 60 \<longrightarrow>
      is_market_open (Inr t) =
        Inr (weekday t < 5 \<and> 9 * 3600 + 30 * 60 \<le> time_of_day t \<and> time_of_day t < 16 * 3600))
   \<and> is_market_open (Inr (mk_time wd 16 0 0)) = Inr False
   \<and> is_market_open (Inr (mk_time wd 9 29 59)) = Inr False
   \<and> (5 \<le> weekday t \<or> hour t < 9 \<or> 16 < hour t \<longrightarrow>
        check_market_open (Inr t) lg = (Inr False, lg))
   \<and> (weekday t < 5 \<and> 9 \<le> hour t \<and> hour t < 16 \<longrightarrow>
        check_market_open (Inr t) lg = (Inr True, lg))"
proof -
  have window: "minute t < 60 \<and> second t < 60 \<longrightarrow>
      is_market_open (Inr t) =
        Inr (weekday t < 5 \<and> 9 * 3600 + 30 * 60 \<le> time_of_day t \<and> time_of_day t < 16 * 3600)"
    using is_market_open_window [of t] by simp
  have edges: "is_market_open (Inr (mk_time wd 16 0 0)) = Inr False"
    "is_market_open (Inr (mk_time wd 9 29 59)) = Inr False"
    by (simp_all add: is_market_open_def mk_time_def)
  have coarse: "5 \<le> weekday t \<or> hour t < 9 \<or> 16 < hour t \<longrightarrow>
        check_market_open (Inr t) lg = (Inr False, lg)"
    "weekday t < 5 \<and> 9 \<le> hour t \<and> hour t < 16 \<longrightarrow>
        check_market_open (Inr t) lg = (Inr True, lg)"
    by (auto simp: check_market_open_def)
  from window edges coarse show ?thesis by blast
qed

theorem market_open_checks_witness:
  "is_market_open (Inr monday_noon) = Inr True
   \<and> is_market_open (Inr saturday_noon) = Inr False
   \<and> check_market_open (Inr monday_noon) [] = (Inr True, [])
   \<and> check_market_open (Inr saturday_noon) [] = (Inr False, [])"
  using market_open_checks [of monday_noon 0 "[]"] market_open_checks [of saturday_noon 0 "[]"]
  by (simp add: monday_noon_def saturday_noon_def mk_time_def time_of_day_def)

text \<open>
  C3 as stated fails on \<^verbatim>\<open>check_market_open\<close>: on a Monday at 09:29:59, before 09:30, it
  answers true.
\<close>

theorem check_market_open_0929_counterexample:
  "check_market_open (Inr (mk_time 0 9 29 59)) [] = (Inr True, [])
   \<and> \<not> (9 * 3600 + 30 * 60 \<le> time_of_day (mk_time 0 9 29 59))"
  by (simp add: check_market_open_def mk_time_def time_of_day_def)

text \<open>
  C8 (as amended). When reading the clock fails, \<^verbatim>\<open>check_market_open\<close> of
  \<^verbatim>\<open>enhanced_main.py\<close> logs the error and answers true; \<^verbatim>\<open>is_market_open\<close> of \<^verbatim>\<open>main.py\<close>
  has no handler and the error leaves it to the caller.
\<close>

theorem market_open_on_clock_error:
  "check_market_open (Inl e) lg = (Inr True, lg @ [MarketCheckError e])
   \<and> is_market_open (Inl e) = Inl e"
  by (simp add: check_market_open_def is_market_open_def)

theorem market_open_on_clock_error_witness:
  "check_market_open (Inl (ExternalError ''clock'')) []
     = (Inr True, [MarketCheckError (ExternalError ''clock'')])"
  using market_open_on_clock_error [of "ExternalError ''clock''" "[]"] by simp

text \<open>
  C8 as stated fails on \<^verbatim>\<open>is_market_open\<close>: when the timezone cannot be resolved it raises
  instead of answering true.
\<close>

theorem is_market_open_raises_counterexample:
  "is_market_open (Inl (ExternalError ''UnknownTimeZoneError''))
     = Inl (ExternalError ''UnknownTimeZoneError'')
   \<and> is_market_open (Inl (ExternalError ''UnknownTimeZoneError'')) \<noteq> Inr True"
  by (simp add: is_market_open_def)

section \<open>Market weakness\<close>

text \<open>
  C7. On a quote history whose last two closes are \<open>prev_close\<close> and \<open>today_close\<close>, with a
  positive prior close, \<^verbatim>\<open>is_market_weak\<close> answers true exactly when the latest close is
  down by more than 1% of the prior close; on a history of fewer than two closes it
  answers false; and when the fetch raises it logs the error and answers false, without
  raising.
\<close>

theorem is_market_weak_spec:
  "(spy_closes env = Inr (earlier @ [prev_close, today_close]) \<and> 0 < prev_close \<longrightarrow>
      is_market_weak env w = (Inr (prev_close - today_close > prev_close / 100), w))
   \<and> (spy_closes env = Inr hist \<and> length hist < 2 \<longrightarrow> is_market_weak env w = (Inr False, w))
   \<and> (spy_closes env = Inl e \<longrightarrow>
        is_market_weak env w = (Inr False, w\<lparr>logged := logged w @ [SpyAnalysisError e]\<rparr>))"
  by (auto simp: is_market_weak_def Let_def log_line_def nth_append field_simps)

theorem is_market_weak_spec_witness:
  "is_market_weak quiet_env empty_world = (Inr True, empty_world)
   \<and> is_market_weak (quiet_env\<lparr>spy_closes := Inr [100, 99]\<rparr>) empty_world
       = (Inr False, empty_world)
   \<and> is_market_weak (quiet_env\<lparr>spy_closes := Inr [100]\<rparr>) empty_world
       = (Inr False, empty_world)
   \<and> is_market_weak (quiet_env\<lparr>spy_closes := Inl (ExternalError ''yfinance'')\<rparr>) empty_world
       = (Inr False, empty_world\<lparr>logged := [SpyAnalysisError (ExternalError ''yfinance'')]\<rparr>)"
  using is_market_weak_spec [of quiet_env "[]" 100 98 empty_world "[]" TypeError]
    is_market_weak_spec [of "quiet_env\<lparr>spy_closes := Inr [100, 99]\<rparr>"
      "[]" 100 99 empty_world "[]" TypeError]
    is_market_weak_spec [of "quiet_env\<lparr>spy_closes := Inr [100]\<rparr>"
      "[]" 1 1 empty_world "[100]" TypeError]
    is_market_weak_spec [of "quiet_env\<lparr>spy_closes := Inl (ExternalError ''yfinance'')\<rparr>"
      "[]" 1 1 empty_world "[]" "ExternalError ''yfinance''"]
  by (simp add: quiet_env_def empty_world_def)

section \<open>News sentiment\<close>

lemma scan_articles_range:
  "scan_articles lower as \<in> {Inr ''negative'', Inr ''positive'', Inr ''neutral''} \<union> range Inl"
  by (induction as) (auto split: sum.splits)

lemma fetch_news_try_range:
  "fetch_news_try lower r \<in> {Inr ''negative'', Inr ''positive'', Inr ''neutral''} \<union> range Inl"
proof (cases r)
  case (RequestRaises e)
  then show ?thesis by (simp add: fetch_news_try_def)
next
  case (Response code body)
  then show ?thesis
    using scan_articles_range
    by (auto simp: fetch_news_try_def split: option.splits sum.splits)
qed

text \<open>
  C9. For every symbol and every outcome of the news query, \<^verbatim>\<open>fetch_news_sentiment\<close>
  returns normally one of "negative", "positive", "neutral"; it returns "neutral" when
  the request raises, when the status is not 200, when the body is not JSON, and in general
  whenever anything raises inside its \<^verbatim>\<open>try\<close> (the error is then logged).
\<close>

theorem fetch_news_sentiment_total:
  "fst (fetch_news_sentiment env sy w) \<in> {Inr ''negative'', Inr ''positive'', Inr ''neutral''}
   \<and> (news env sy = RequestRaises e \<longrightarrow>
        fetch_news_sentiment env sy w = (Inr ''neutral'', log_line (NewsAnalysisError sy e) w))
   \<and> (news env sy = Response status_code body \<and> status_code \<noteq> 200 \<longrightarrow>
        fetch_news_sentiment env sy w = (Inr ''neutral'', w))
   \<and> (news env sy = Response 200 None \<longrightarrow>
        fetch_news_sentiment env sy w
          = (Inr ''neutral'', log_line (NewsAnalysisError sy JSONDecodeError) w))
   \<and> (fetch_news_try (str_lower env) (news env sy) = Inl e \<longrightarrow>
        fetch_news_sentiment env sy w = (Inr ''neutral'', log_line (NewsAnalysisError sy e) w))"
proof -
  have "fst (fetch_news_sentiment env sy w)
          \<in> {Inr ''negative'', Inr ''positive'', Inr ''neutral''}"
    using fetch_news_try_range [of "str_lower env" "news env sy"]
    by (auto simp: fetch_news_sentiment_def split: sum.splits)
  then show ?thesis
    by (auto simp: fetch_news_sentiment_def fetch_news_try_def)
qed

theorem fetch_news_sentiment_total_witness:
  "fetch_news_sentiment offline_env ''ACME'' empty_world
     = (Inr ''neutral'',
        log_line (NewsAnalysisError ''ACME'' (ExternalError ''ConnectionError'')) empty_world)
   \<and> fetch_news_sentiment quiet_env ''ACME'' empty_world = (Inr ''neutral'', empty_world)
   \<and> fetch_news_sentiment garbled_env ''ACME'' empty_world
       = (Inr ''neutral'', log_line (NewsAnalysisError ''ACME'' JSONDecodeError) empty_world)
   \<and> fetch_news_sentiment acme_env ''ACME'' empty_world = (Inr ''positive'', empty_world)"
proof -
  have "fetch_news_sentiment acme_env ''ACME'' empty_world = (Inr ''positive'', empty_world)"
    by (simp add: fetch_news_sentiment_def fetch_news_try_def acme_env_def quiet_env_def
        headline_def ascii_lower_def ascii_lower_char_def sublist_code(3))
  then show ?thesis
    using fetch_news_sentiment_total [of offline_env "''ACME''" empty_world
        "ExternalError ''ConnectionError''" 404 None]
      fetch_news_sentiment_total [of quiet_env "''ACME''" empty_world TypeError 404 None]
      fetch_news_sentiment_total [of garbled_env "''ACME''" empty_world JSONDecodeError 404 None]
    by (simp add: offline_env_def garbled_env_def quiet_env_def fetch_news_try_def)
qed

section \<open>The positive-news watcher\<close>

lemma fetch_news_sentiment_value:
  "fst (fetch_news_sentiment env sy w) = Inr (sentiment_of env sy)"
  by (simp add: fetch_news_sentiment_def sentiment_of_def split: sum.splits)

lemma fetch_news_sentiment_files:
  "files (snd (fetch_news_sentiment env sy w)) = files w"
  by (simp add: fetch_news_sentiment_def log_line_def split: sum.splits)

lemma telegram_files: "files (snd (telegram env m w)) = files w"
  by (simp add: telegram_def split: option.splits)

lemma scan_stocks_files:
  "files (snd (scan_stocks env old stocks pos w)) = files w"
proof (induction stocks arbitrary: pos w)
  case Nil
  then show ?case by simp
next
  case (Cons stock stocks)
  obtain r w1 where f: "fetch_news_sentiment env (symbol stock) w = (r, w1)"
    by (cases "fetch_news_sentiment env (symbol stock) w")
  have w1: "files w1 = files w"
    using fetch_news_sentiment_files [of env "symbol stock" w] f by simp
  obtain r2 w2 where t: "telegram env (NewPositiveStock (symbol stock)) w1 = (r2, w2)"
    by (cases "telegram env (NewPositiveStock (symbol stock)) w1")
  have w2: "files w2 = files w"
    using telegram_files [of env "NewPositiveStock (symbol stock)" w1] t w1 by simp
  show ?case
    using f t w1 w2 Cons.IH by (auto split: sum.splits)
qed

lemma scan_stocks_result:
  "fst (scan_stocks env old stocks pos w) = Inr ps \<Longrightarrow> ps = pos @ newly_positive env old stocks"
proof (induction stocks arbitrary: pos w)
  case Nil
  then show ?case by (simp add: newly_positive_def)
next
  case (Cons stock stocks)
  obtain r w1 where f: "fetch_news_sentiment env (symbol stock) w = (r, w1)"
    by (cases "fetch_news_sentiment env (symbol stock) w")
  have r: "r = Inr (sentiment_of env (symbol stock))"
    using fetch_news_sentiment_value [of env "symbol stock" w] f by simp
  obtain r2 w2 where t: "telegram env (NewPositiveStock (symbol stock)) w1 = (r2, w2)"
    by (cases "telegram env (NewPositiveStock (symbol stock)) w1")
  show ?case
  proof (cases "sentiment_of env (symbol stock) = ''positive'' \<and> symbol stock \<notin> set old")
    case True
    with Cons.prems f r t obtain u where "r2 = Inr u"
      and "fst (scan_stocks env old stocks (pos @ [stock]) w2) = Inr ps"
      by (cases r2) auto
    then have "ps = (pos @ [stock]) @ newly_positive env old stocks"
      using Cons.IH by blast
    with True show ?thesis by (simp add: newly_positive_def)
  next
    case False
    with Cons.prems f r have "fst (scan_stocks env old stocks pos w1) = Inr ps"
      by auto
    then have "ps = pos @ newly_positive env old stocks"
      using Cons.IH by blast
    with False show ?thesis by (auto simp: newly_positive_def)
  qed
qed

lemma scan_stocks_succeeds:
  "\<forall>m. send_telegram_message env m = None \<Longrightarrow>
   fst (scan_stocks env old stocks pos w) = Inr (pos @ newly_positive env old stocks)"
proof (induction stocks arbitrary: pos w)
  case Nil
  then show ?case by (simp add: newly_positive_def)
next
  case (Cons stock stocks)
  obtain r w1 where f: "fetch_news_sentiment env (symbol stock) w = (r, w1)"
    by (cases "fetch_news_sentiment env (symbol stock) w")
  have r: "r = Inr (sentiment_of env (symbol stock))"
    using fetch_news_sentiment_value [of env "symbol stock" w] f by simp
  have t: "telegram env m w1 = (Inr (), w1\<lparr>sent := sent w1 @ [m]\<rparr>)" for m
    using Cons.prems by (simp add: telegram_def)
  show ?case
    using f r t Cons.IH [OF Cons.prems] by (auto simp: newly_positive_def)
qed

lemma watch_positive_news_stocks_loaded:
  "(files (snd (watch_positive_news_stocks env w)) = files w
    \<or> (\<exists>stocks old_symbols.
          fetch_stocks_from_tradingview env = Inr stocks
          \<and> load_old_symbols (files w) = Inr old_symbols
          \<and> newly_positive env old_symbols stocks \<noteq> []
          \<and> files (snd (watch_positive_news_stocks env w))
              = (files w)(POSITIVE_NEWS_FILE
                   \<mapsto> Snapshot (newly_positive env old_symbols stocks))))
   \<and> (fetch_stocks_from_tradingview env = Inr stocks
        \<and> load_old_symbols (files w) = Inr old_symbols
        \<and> newly_positive env old_symbols stocks = []
      \<longrightarrow> files (snd (watch_positive_news_stocks env w)) = files w)
   \<and> (fetch_stocks_from_tradingview env = Inr stocks
        \<and> load_old_symbols (files w) = Inr old_symbols
        \<and> newly_positive env old_symbols stocks \<noteq> []
        \<and> (\<forall>m. send_telegram_message env m = None)
      \<longrightarrow> files (snd (watch_positive_news_stocks env w))
            = (files w)(POSITIVE_NEWS_FILE
                 \<mapsto> Snapshot (newly_positive env old_symbols stocks)))"
proof -
  let ?w0 = "log_line CheckingPositiveNews w"
  have w0: "files ?w0 = files w" by (simp add: log_line_def)
  have handler:
    "files (snd (try_except m (\<lambda>e. log_info (PositiveWatchFailed e)) v)) = files (snd (m v))"
    for m :: "unit io" and v
    by (simp add: try_except_def log_info_def log_line_def split: prod.splits sum.splits)
  have watch: "files (snd (watch_positive_news_stocks env w))
                 = files (snd (watch_positive_news_try env ?w0))"
    by (simp add: watch_positive_news_stocks_def handler)
  show ?thesis
  proof (cases "fetch_stocks_from_tradingview env")
    case (Inl e)
    then show ?thesis by (simp add: watch watch_positive_news_try_def w0)
  next
    case fetched: (Inr sts)
    show ?thesis
    proof (cases "load_old_symbols (files w)")
      case (Inl e)
      with fetched show ?thesis by (simp add: watch watch_positive_news_try_def w0)
    next
      case loaded: (Inr old)
      obtain r w1 where sc: "scan_stocks env old sts [] ?w0 = (r, w1)"
        by (cases "scan_stocks env old sts [] ?w0")
      have w1: "files w1 = files w"
        using scan_stocks_files [of env old sts "[]" ?w0] sc w0 by simp
      show ?thesis
      proof (cases r)
        case (Inl e)
        with fetched loaded sc w1
        have same: "files (snd (watch_positive_news_stocks env w)) = files w"
          by (simp add: watch watch_positive_news_try_def w0)
        have "\<not> (\<forall>m. send_telegram_message env m = None)"
        proof
          assume "\<forall>m. send_telegram_message env m = None"
          then have "fst (scan_stocks env old sts [] ?w0) = Inr ([] @ newly_positive env old sts)"
            by (rule scan_stocks_succeeds)
          with sc Inl show False by simp
        qed
        with same fetched loaded show ?thesis by auto
      next
        case (Inr ps)
        then have ps: "ps = newly_positive env old sts"
          using scan_stocks_result [of env old sts "[]" ?w0 ps] sc by simp
        with fetched loaded sc w1 Inr show ?thesis
          by (auto simp: watch watch_positive_news_try_def w0 log_info_def log_line_def)
      qed
    qed
  qed
qed

lemma load_old_symbols_readable:
  "\<not> stored_unreadable fls \<Longrightarrow> load_old_symbols fls = Inr (map symbol (previously_stored fls))"
  by (simp add: load_old_symbols_def stored_unreadable_def previously_stored_def
      split: option.splits file_content.splits)

lemma load_old_symbols_unreadable:
  "stored_unreadable fls \<Longrightarrow> \<exists>e. load_old_symbols fls = Inl e"
  by (simp add: load_old_symbols_def stored_unreadable_def
      split: option.splits file_content.splits)

lemma watch_unreadable:
  assumes "stored_unreadable (files w)"
  shows "files (snd (watch_positive_news_stocks env w)) = files w"
proof -
  obtain e where "load_old_symbols (files w) = Inl e"
    using load_old_symbols_unreadable [OF assms] by blast
  then show ?thesis
    by (simp add: watch_positive_news_stocks_def watch_positive_news_try_def try_except_def
        log_info_def log_line_def split: sum.splits)
qed

text \<open>
  C10. One run of \<^verbatim>\<open>watch_positive_news_stocks\<close> either leaves every file as it was, or
  the fetch succeeded, the watchlist file was absent or readable, at least one fetched
  stock has positive sentiment and a symbol that is not among the symbols of the list the
  file held before, and the file now holds exactly those stocks of this run (no other file
  changes, the entries held before are gone). When no fetched stock is positive with a
  symbol absent from the list held before, the files are as they were. When there is such a
  stock and no Telegram send raises, the file is rewritten. When the file cannot be read,
  the files are as they were.
\<close>

theorem watch_positive_news_stocks_file:
  "(files (snd (watch_positive_news_stocks env w)) = files w
    \<or> (\<exists>stocks.
          fetch_stocks_from_tradingview env = Inr stocks
          \<and> \<not> stored_unreadable (files w)
          \<and> newly_positive env (map symbol (previously_stored (files w))) stocks \<noteq> []
          \<and> files (snd (watch_positive_news_stocks env w))
              = (files w)(POSITIVE_NEWS_FILE \<mapsto> Snapshot
                   (newly_positive env (map symbol (previously_stored (files w))) stocks))))
   \<and> (fetch_stocks_from_tradingview env = Inr stocks
        \<and> newly_positive env (map symbol (previously_stored (files w))) stocks = []
      \<longrightarrow> files (snd (watch_positive_news_stocks env w)) = files w)
   \<and> (fetch_stocks_from_tradingview env = Inr stocks
        \<and> \<not> stored_unreadable (files w)
        \<and> newly_positive env (map symbol (previously_stored (files w))) stocks \<noteq> []
        \<and> (\<forall>m. send_telegram_message env m = None)
      \<longrightarrow> files (snd (watch_positive_news_stocks env w))
            = (files w)(POSITIVE_NEWS_FILE \<mapsto> Snapshot
                 (newly_positive env (map symbol (previously_stored (files w))) stocks)))
   \<and> (stored_unreadable (files w)
      \<longrightarrow> files (snd (watch_positive_news_stocks env w)) = files w)"
proof (cases "stored_unreadable (files w)")
  case True
  then show ?thesis using watch_unreadable [of w env] by simp
next
  case False
  then have l: "load_old_symbols (files w) = Inr (map symbol (previously_stored (files w)))"
    by (rule load_old_symbols_readable)
  show ?thesis
    using watch_positive_news_stocks_loaded
      [of env w stocks "map symbol (previously_stored (files w))"] l False
    by auto
qed

theorem watch_positive_news_stocks_file_witness:
  "files (snd (watch_positive_news_stocks acme_env stored_world))
     = [POSITIVE_NEWS_FILE \<mapsto> Snapshot [stock_of ''ACME'']]
   \<and> files (snd (watch_positive_news_stocks acme_env stored_acme_world))
       = [POSITIVE_NEWS_FILE \<mapsto> Snapshot [stock_of ''ACME'', stock_of ''OLD'']]
   \<and> files (snd (watch_positive_news_stocks quiet_env stored_world)) = files stored_world
   \<and> files (snd (watch_positive_news_stocks acme_env unreadable_world))
       = files unreadable_world"
proof -
  let ?fetched = "[stock_of ''ACME'', stock_of ''ZZZ'']"
  have f: "fetch_stocks_from_tradingview acme_env = Inr ?fetched"
    "\<forall>m. send_telegram_message acme_env m = None"
    "fetch_stocks_from_tradingview quiet_env = Inr []"
    by (simp_all add: acme_env_def quiet_env_def)
  have p: "previously_stored (files stored_world) = [stock_of ''OLD'']"
    "previously_stored (files stored_acme_world) = [stock_of ''ACME'', stock_of ''OLD'']"
    "\<not> stored_unreadable (files stored_world)"
    "\<not> stored_unreadable (files stored_acme_world)"
    "stored_unreadable (files unreadable_world)"
    by (simp_all add: previously_stored_def stored_unreadable_def stored_world_def
        stored_acme_world_def unreadable_world_def empty_world_def)
  have pos: "sentiment_of acme_env ''ACME'' = ''positive''"
    by (simp add: sentiment_of_def acme_env_def quiet_env_def fetch_news_try_def headline_def
        ascii_lower_def ascii_lower_char_def sublist_code(3))
  have neu: "sentiment_of acme_env ''ZZZ'' = ''neutral''"
    by (simp add: sentiment_of_def acme_env_def quiet_env_def fetch_news_try_def)
  have n: "newly_positive acme_env (map symbol [stock_of ''OLD'']) ?fetched = [stock_of ''ACME'']"
    "newly_positive acme_env (map symbol [stock_of ''ACME'', stock_of ''OLD'']) ?fetched = []"
    "newly_positive quiet_env (map symbol [stock_of ''OLD'']) [] = []"
    using pos neu by (simp_all add: newly_positive_def stock_of_def)
  show ?thesis
    using watch_positive_news_stocks_file [of acme_env stored_world ?fetched]
      watch_positive_news_stocks_file [of acme_env stored_acme_world ?fetched]
      watch_positive_news_stocks_file [of quiet_env stored_world "[]"]
      watch_positive_news_stocks_file [of acme_env unreadable_world ?fetched]
      f p n
    by (simp add: stored_world_def stored_acme_world_def empty_world_def)
qed

section \<open>Market gating\<close>

text \<open>
  C6. When the market is closed, \<^verbatim>\<open>update_market_data\<close>, \<^verbatim>\<open>update_pump_stocks\<close> and
  \<^verbatim>\<open>update_high_movement_stocks\<close> return at once: no file is touched, no alert is sent,
  no task is created (the first writes one log line, the other two nothing). When the
  market is open, \<^verbatim>\<open>send_daily_report_task\<close> does the same, with one log line.
\<close>

theorem gated_actions_frame:
  "(is_market_open (ny_now env) = Inr False \<longrightarrow>
      update_market_data env w = (Inr (), log_line MarketClosedUpdateCancelled w)
      \<and> returns_without_effect (update_market_data env) w
      \<and> update_pump_stocks env w = (Inr (), w)
      \<and> returns_without_effect (update_pump_stocks env) w
      \<and> update_high_movement_stocks env w = (Inr (), w)
      \<and> returns_without_effect (update_high_movement_stocks env) w)
   \<and> (is_market_open (ny_now env) = Inr True \<longrightarrow>
        send_daily_report_task env w = (Inr (), log_line MarketOpenReportPostponed w)
        \<and> returns_without_effect (send_daily_report_task env) w)"
  by (simp add: update_market_data_def update_pump_stocks_def update_high_movement_stocks_def
      send_daily_report_task_def returns_without_effect_def log_info_def log_line_def)

theorem gated_actions_frame_witness:
  "returns_without_effect (update_market_data quiet_env) stored_world
   \<and> update_pump_stocks quiet_env stored_world = (Inr (), stored_world)
   \<and> update_high_movement_stocks quiet_env stored_world = (Inr (), stored_world)
   \<and> returns_without_effect (send_daily_report_task open_env) stored_world"
proof -
  have "is_market_open (ny_now quiet_env) = Inr False"
    "is_market_open (ny_now open_env) = Inr True"
    by (simp_all add: quiet_env_def open_env_def is_market_open_def saturday_noon_def
        monday_noon_def mk_time_def)
  then show ?thesis
    using gated_actions_frame [of quiet_env stored_world]
      gated_actions_frame [of open_env stored_world]
    by simp
qed

section \<open>Exceptions inside the actions\<close>

text \<open>
  The actions whose body is inside a \<^verbatim>\<open>try\<close> return normally whatever the collaborators
  raise; for the three gated ones this needs the clock to have answered, since
  \<^verbatim>\<open>is_market_open\<close> is called before the \<^verbatim>\<open>try\<close>.
\<close>

lemma try_except_log_returns:
  "fst (try_except m (\<lambda>e. log_info (f e)) w) = Inr ()" for m :: "unit io"
  by (simp add: try_except_def log_info_def split: prod.splits sum.splits)

lemma caught_actions_never_raise:
  "fst (daily_model_training env w) = Inr ()"
  "fst (track_targets env w) = Inr ()"
  "fst (update_symbols env w) = Inr ()"
  "fst (watch_positive_news_stocks env w) = Inr ()"
  by (simp_all add: daily_model_training_def track_targets_def update_symbols_def
      watch_positive_news_stocks_def try_except_log_returns)

lemma gated_actions_never_raise:
  assumes "is_market_open (ny_now env) = Inr b"
  shows "fst (update_market_data env w) = Inr ()"
    "fst (update_pump_stocks env w) = Inr ()"
    "fst (update_high_movement_stocks env w) = Inr ()"
  using assms
  by (simp_all add: update_market_data_def update_pump_stocks_def
      update_high_movement_stocks_def try_except_log_returns log_info_def)

text \<open>
  C2 (the code departs from it). \<^verbatim>\<open>send_daily_report_task\<close> and
  \<^verbatim>\<open>clean_trade_history_task\<close> have no \<^verbatim>\<open>try\<close>: with the market closed and
  \<^verbatim>\<open>generate_report_summary\<close> raising, the report task ends with that exception and logs
  nothing; so does the history task when \<^verbatim>\<open>clean_old_trades\<close> raises.
\<close>

theorem uncaught_actions_raise:
  "send_daily_report_task report_fails_env empty_world
     = (Inl (ExternalError ''report''), empty_world)
   \<and> clean_trade_history_task history_fails_env empty_world
     = (Inl (ExternalError ''history''), empty_world)"
  by (simp add: send_daily_report_task_def clean_trade_history_task_def report_fails_env_def
      history_fails_env_def quiet_env_def is_market_open_def saturday_noon_def mk_time_def
      call_def failing_def empty_world_def)

section \<open>The job table\<close>

lemma verify_stop_orders_job_raises:
  "invoke env (AsyncioRun VerifyActiveStopOrders) w
     = (Inl (NameError ''verify_active_stop_orders''), w)"
  by simp

text \<open>
  C1 (as amended). For every registered job other than the positive-news watcher and the
  stop-order verification, calling the job's callable only creates an asyncio task for the
  action and returns: files, alerts and log are as before, so nothing of the action's body
  has run. The callable of the positive-news watcher is the function itself: calling it
  runs the whole body before it returns.
\<close>

theorem created_task_jobs_only_launch:
  "(job \<in> set registered_jobs
      \<and> action_of (job_func job) \<notin> {WatchPositiveNewsStocks, VerifyActiveStopOrders}
    \<longrightarrow> invoke env (job_func job) w
          = (Inr (), w\<lparr>tasks := tasks w @ [action_of (job_func job)]\<rparr>))
   \<and> invoke env (CallDirectly WatchPositiveNewsStocks) w = watch_positive_news_stocks env w"
  by (auto simp: registered_jobs_def action_of_def create_task_def)

theorem created_task_jobs_only_launch_witness:
  "\<lparr>job_cadence = DailyAt 0 0, job_func = CreateTask DailyModelTraining\<rparr> \<in> set registered_jobs
   \<and> invoke quiet_env (CreateTask DailyModelTraining) empty_world
       = (Inr (), empty_world\<lparr>tasks := [DailyModelTraining]\<rparr>)"
  using created_task_jobs_only_launch
    [of "\<lparr>job_cadence = DailyAt 0 0, job_func = CreateTask DailyModelTraining\<rparr>" quiet_env empty_world]
  by (simp add: registered_jobs_def action_of_def empty_world_def)

text \<open>
  C1 as stated fails on the watcher job: it is in the table, and calling its callable on
  an empty world runs the body (two log lines) and creates no task.
\<close>

theorem watcher_job_runs_inline_counterexample:
  "\<lparr>job_cadence = EveryMinutes 10, job_func = CallDirectly WatchPositiveNewsStocks\<rparr>
      \<in> set registered_jobs
   \<and> invoke quiet_env (CallDirectly WatchPositiveNewsStocks) empty_world
       = (Inr (), empty_world\<lparr>logged := [CheckingPositiveNews, NoPositiveStocks]\<rparr>)
   \<and> tasks (snd (invoke quiet_env (CallDirectly WatchPositiveNewsStocks) empty_world)) = []"
  by (simp add: registered_jobs_def watch_positive_news_stocks_def watch_positive_news_try_def
      try_except_def quiet_env_def load_old_symbols_def empty_world_def log_info_def log_line_def)


section \<open>Backup, then overwrite\<close>

text \<open>
  With collaborators that write the new list and leave the other files alone,
  \<^verbatim>\<open>update_pump_stocks\<close> on an open market leaves the files that the guarded copy followed
  by the write leaves.
\<close>

lemma update_pump_stocks_refresh:
  assumes "is_market_open (ny_now env) = Inr True"
    and "\<And>fls. detect_pump_stocks env fls
           = (None, fls(''data/pump_stocks.json'' \<mapsto> Snapshot new_data), alerts fls)"
    and "\<And>fls. fst (snd (compare_stock_lists_and_alert env
           ''data/pump_stocks_old.json'' ''data/pump_stocks.json'' fls)) = fls"
  shows "files (snd (update_pump_stocks env w))
         = files (snd (backup_then_overwrite ''data/pump_stocks.json''
                    ''data/pump_stocks_old.json'' new_data w))"
proof -
  let ?cmp = "compare_stock_lists_and_alert env
                ''data/pump_stocks_old.json'' ''data/pump_stocks.json''"
  have cmp: "files (snd (call ?cmp v)) = files v" for v
    using assms(3) [of "files v"] by (cases "?cmp (files v)") (simp add: call_def)
  have handled: "files (snd (try_except (seq [a, b, c, call ?cmp])
                   (\<lambda>e. log_info (PumpsFailed e)) v))
                 = files (snd (seq [a, b, c] v))"
    if "fst (seq [a, b, c] v) = Inr ()" for a b c v
    using that cmp [of "snd (c (snd (b (snd (a v)))))"]
    by (auto simp: try_except_def log_info_def log_line_def split: prod.splits sum.splits)
  have steps: "seq [copy_if_exists ''data/pump_stocks.json'' ''data/pump_stocks_old.json'',
                    call (detect_pump_stocks env), log_info PumpsUpdated] v
               = (Inr (), log_line PumpsUpdated
                   (snd (call (detect_pump_stocks env)
                     (snd (copy_if_exists ''data/pump_stocks.json''
                        ''data/pump_stocks_old.json'' v)))))" for v
    using assms(2)
    by (simp add: copy_if_exists_def call_def log_info_def split: option.splits)
  let ?w0 = "log_line AnalyzingPumps w"
  have "fst (seq [copy_if_exists ''data/pump_stocks.json'' ''data/pump_stocks_old.json'',
                  call (detect_pump_stocks env), log_info PumpsUpdated] ?w0) = Inr ()"
    by (simp only: steps fst_conv)
  from handled [OF this]
  have "files (snd (update_pump_stocks env w))
        = files (snd (seq [copy_if_exists ''data/pump_stocks.json'' ''data/pump_stocks_old.json'',
                  call (detect_pump_stocks env), log_info PumpsUpdated] ?w0))"
    using assms(1) by (simp add: update_pump_stocks_def)
  also have "\<dots> = files (snd (backup_then_overwrite ''data/pump_stocks.json''
                    ''data/pump_stocks_old.json'' new_data w))"
    using assms(2)
    by (simp only: steps)
       (simp add: backup_then_overwrite_def copy_if_exists_def write_snapshot_def
          log_line_def call_def split: option.splits)
  finally show ?thesis .
qed


text \<open>
  C4 (as amended). For distinct names, after the guarded copy and the write, \<open>name\<close>
  holds the new data; \<open>name_old\<close> holds what \<open>name\<close> held before when \<open>name\<close> existed,
  and otherwise is as it was before (absent only if it was absent); no other file
  changes.
\<close>

theorem backup_then_overwrite_spec:
  "name \<noteq> name_old \<longrightarrow>
     fst (backup_then_overwrite name name_old new_data w) = Inr ()
     \<and> files (snd (backup_then_overwrite name name_old new_data w)) name
         = Some (Snapshot new_data)
     \<and> files (snd (backup_then_overwrite name name_old new_data w)) name_old
         = (case files w name of Some before \<Rightarrow> Some before | None \<Rightarrow> files w name_old)
     \<and> (\<forall>other. other \<noteq> name \<and> other \<noteq> name_old \<longrightarrow>
           files (snd (backup_then_overwrite name name_old new_data w)) other = files w other)"
  by (simp add: backup_then_overwrite_def copy_if_exists_def write_snapshot_def
      split: option.splits)

theorem backup_then_overwrite_spec_witness:
  "files (snd (backup_then_overwrite ''data/pump_stocks.json'' ''data/pump_stocks_old.json''
             [stock_of ''BBB''] pump_world))
     = [''data/pump_stocks.json'' \<mapsto> Snapshot [stock_of ''BBB''],
        ''data/pump_stocks_old.json'' \<mapsto> Snapshot [stock_of ''AAA'']]
   \<and> files (snd (backup_then_overwrite ''data/pump_stocks.json'' ''data/pump_stocks_old.json''
             [stock_of ''BBB''] empty_world))
     = [''data/pump_stocks.json'' \<mapsto> Snapshot [stock_of ''BBB'']]"
proof -
  let ?n = "''data/pump_stocks.json''" and ?o = "''data/pump_stocks_old.json''"
  have ne: "?n \<noteq> ?o" by simp
  have a: "files (snd (backup_then_overwrite ?n ?o [stock_of ''BBB''] pump_world)) f
      = [?n \<mapsto> Snapshot [stock_of ''BBB''], ?o \<mapsto> Snapshot [stock_of ''AAA'']] f" for f
    using backup_then_overwrite_spec [of ?n ?o "[stock_of ''BBB'']" pump_world] ne
    by (cases "f = ?n"; cases "f = ?o") (simp_all add: pump_world_def empty_world_def)
  have b: "files (snd (backup_then_overwrite ?n ?o [stock_of ''BBB''] empty_world)) f
      = [?n \<mapsto> Snapshot [stock_of ''BBB'']] f" for f
    using backup_then_overwrite_spec [of ?n ?o "[stock_of ''BBB'']" empty_world] ne
    by (cases "f = ?n"; cases "f = ?o") (simp_all add: empty_world_def)
  from a b show ?thesis by (simp add: fun_eq_iff del: fun_upd_apply)
qed

text \<open>
  C4 as stated fails when \<open>name\<close> is absent and an older backup exists: the backup is
  still there afterwards, both for the two steps alone and for \<^verbatim>\<open>update_pump_stocks\<close> with
  a collaborator that writes the new list.
\<close>

theorem stale_backup_counterexample:
  "files stale_world ''data/pump_stocks.json'' = None
   \<and> files (snd (backup_then_overwrite ''data/pump_stocks.json'' ''data/pump_stocks_old.json''
               [stock_of ''BBB''] stale_world)) ''data/pump_stocks_old.json''
       = Some (Snapshot [stock_of ''AAA''])
   \<and> files (snd (update_pump_stocks pump_writer_env stale_world)) ''data/pump_stocks_old.json''
       = Some (Snapshot [stock_of ''AAA''])"
  by (simp add: stale_world_def empty_world_def backup_then_overwrite_def copy_if_exists_def
      write_snapshot_def update_pump_stocks_def pump_writer_env_def open_env_def quiet_env_def
      is_market_open_def monday_noon_def mk_time_def try_except_def log_line_def log_info_def
      call_def idle_def)

section \<open>Training at start-up\<close>

lemma training_runs_log_line:
  "training_runs (log_line m w) = training_runs w + (if m = DailyTrainingStarted then 1 else 0)"
  by (simp add: training_runs_def log_line_def)

lemma training_runs_call: "training_runs (snd (call f w)) = training_runs w"
  by (simp add: call_def training_runs_def split: prod.splits)

lemma training_runs_copy: "training_runs (snd (copy_if_exists a b w)) = training_runs w"
  by (simp add: copy_if_exists_def training_runs_def split: option.splits)

lemma training_runs_create_task: "training_runs (snd (create_task a w)) = training_runs w"
  by (simp add: create_task_def training_runs_def)

lemma training_runs_log_info:
  "m \<noteq> DailyTrainingStarted \<Longrightarrow> training_runs (snd (log_info m w)) = training_runs w"
  by (simp add: log_info_def training_runs_log_line)

lemma training_runs_seq:
  "(\<And>m v. m \<in> set ms \<Longrightarrow> training_runs (snd (m v)) = training_runs v)
   \<Longrightarrow> training_runs (snd (seq ms w)) = training_runs w"
proof (induction ms arbitrary: w)
  case Nil
  then show ?case by simp
next
  case (Cons m ms)
  have m: "training_runs (snd (m w)) = training_runs w"
    using Cons.prems by simp
  have rest: "training_runs (snd (seq ms v)) = training_runs v" for v
    using Cons.IH Cons.prems by simp
  show ?case
    using m rest [of "snd (m w)"] by (cases "m w") (auto split: sum.splits)
qed

lemma training_runs_try_except:
  "(\<And>v. training_runs (snd (m v)) = training_runs v)
   \<Longrightarrow> (\<And>e v. training_runs (snd (h e v)) = training_runs v)
   \<Longrightarrow> training_runs (snd (try_except m h w)) = training_runs w"
proof -
  assume m: "\<And>v. training_runs (snd (m v)) = training_runs v"
    and h: "\<And>e v. training_runs (snd (h e v)) = training_runs v"
  obtain r w1 where mw: "m w = (r, w1)" by (cases "m w")
  with m [of w] have w1: "training_runs w1 = training_runs w" by simp
  show ?thesis
    using mw w1 h by (cases r) (simp_all add: try_except_def)
qed

lemma training_runs_daily_model_training:
  "training_runs (snd (daily_model_training env w)) = training_runs w + 1"
proof -
  have "training_runs (snd (daily_model_training env w))
        = training_runs (log_line DailyTrainingStarted w)"
    unfolding daily_model_training_def
    by (intro training_runs_try_except training_runs_seq)
       (auto simp: training_runs_call training_runs_log_info)
  then show ?thesis by (simp add: training_runs_log_line)
qed

lemma training_runs_update_market_data:
  "training_runs (snd (update_market_data env w)) = training_runs w"
proof (cases "is_market_open (ny_now env)")
  case (Inl e)
  then show ?thesis by (simp add: update_market_data_def)
next
  case (Inr is_open)
  show ?thesis
  proof (cases is_open)
    case True
    have "training_runs (snd (update_market_data env w))
          = training_runs (log_line AnalyzingMarket w)"
      using Inr True unfolding update_market_data_def
      by (simp, intro training_runs_try_except training_runs_seq)
         (auto simp: training_runs_call training_runs_log_info training_runs_copy)
    then show ?thesis by (simp add: training_runs_log_line)
  next
    case False
    with Inr show ?thesis
      by (simp add: update_market_data_def training_runs_log_info)
  qed
qed

lemma training_runs_update_pump_stocks:
  "training_runs (snd (update_pump_stocks env w)) = training_runs w"
proof (cases "is_market_open (ny_now env)")
  case (Inl e)
  then show ?thesis by (simp add: update_pump_stocks_def)
next
  case (Inr is_open)
  show ?thesis
  proof (cases is_open)
    case True
    have "training_runs (snd (update_pump_stocks env w))
          = training_runs (log_line AnalyzingPumps w)"
      using Inr True unfolding update_pump_stocks_def
      by (simp, intro training_runs_try_except training_runs_seq)
         (auto simp: training_runs_call training_runs_log_info training_runs_copy)
    then show ?thesis by (simp add: training_runs_log_line)
  next
    case False
    with Inr show ?thesis
      by (simp add: update_pump_stocks_def)
  qed
qed

lemma training_runs_update_high_movement_stocks:
  "training_runs (snd (update_high_movement_stocks env w)) = training_runs w"
proof (cases "is_market_open (ny_now env)")
  case (Inl e)
  then show ?thesis by (simp add: update_high_movement_stocks_def)
next
  case (Inr is_open)
  show ?thesis
  proof (cases is_open)
    case True
    have "training_runs (snd (update_high_movement_stocks env w))
          = training_runs (log_line AnalyzingHighMovement w)"
      using Inr True unfolding update_high_movement_stocks_def
      by (simp, intro training_runs_try_except training_runs_seq)
         (auto simp: training_runs_call training_runs_log_info training_runs_copy)
    then show ?thesis by (simp add: training_runs_log_line)
  next
    case False
    with Inr show ?thesis
      by (simp add: update_high_movement_stocks_def)
  qed
qed

lemma seq_Cons_returns: "fst (m w) = Inr () \<Longrightarrow> seq (m # ms) w = seq ms (snd (m w))"
  by (cases "m w") auto

lemma training_runs_main_startup:
  "training_runs (snd (main_startup env w)) = training_runs w + 1"
proof -
  let ?w1 = "snd (create_task ScheduledTasks w)"
  let ?w2 = "snd (daily_model_training env ?w1)"
  have rest: "training_runs (snd (seq [update_market_data env, update_pump_stocks env,
                 update_high_movement_stocks env] ?w2)) = training_runs ?w2"
    by (rule training_runs_seq)
       (auto simp: training_runs_update_market_data training_runs_update_pump_stocks
          training_runs_update_high_movement_stocks)
  have "snd (main_startup env w)
        = snd (seq [update_market_data env, update_pump_stocks env,
                 update_high_movement_stocks env] ?w2)"
  proof -
    have c: "fst (create_task ScheduledTasks w) = Inr ()"
      by (simp add: create_task_def)
    have d: "fst (daily_model_training env ?w1) = Inr ()"
      by (rule caught_actions_never_raise(1))
    have "main_startup env w
          = seq [daily_model_training env, update_market_data env, update_pump_stocks env,
                 update_high_movement_stocks env] ?w1"
      unfolding main_startup_def
      using c by (rule seq_Cons_returns [where m = "create_task ScheduledTasks" and w = w])
    also have "\<dots> = seq [update_market_data env, update_pump_stocks env,
                 update_high_movement_stocks env] ?w2"
      using d by (rule seq_Cons_returns [where m = "daily_model_training env" and w = ?w1])
    finally show ?thesis by simp
  qed
  then show ?thesis
    using rest
    by (simp add: training_runs_daily_model_training training_runs_create_task)
qed

text \<open>
  C5 (as amended). Every start of the process runs the daily training once, whatever the
  clock says and whatever earlier starts left behind: no last-run state is read. So the
  starts that fall on one calendar day contribute one training run each.
\<close>

theorem training_runs_restarts:
  "training_runs (restarts envs w) = training_runs w + length envs"
  by (induction envs arbitrary: w) (simp_all add: training_runs_main_startup)

theorem training_runs_restarts_witness:
  "training_runs (restarts [quiet_env, open_env, quiet_env] empty_world) = 3"
  using training_runs_restarts [of "[quiet_env, open_env, quiet_env]" empty_world]
  by (simp add: training_runs_def empty_world_def)

text \<open>
  C5 as stated fails with a restart: two starts on the same Saturday run the training
  twice.
\<close>

theorem two_starts_two_trainings_counterexample:
  "training_runs (restarts [quiet_env, quiet_env] empty_world) = 2"
  by (simp add: main_startup_def create_task_def daily_model_training_def try_except_def
      call_def log_info_def log_line_def update_market_data_def update_pump_stocks_def
      update_high_movement_stocks_def quiet_env_def is_market_open_def saturday_noon_def
      mk_time_def idle_def empty_world_def training_runs_def)


end
